theory Spec2Isabelle
  imports Main "HOL-Library.Word" "HOL-Library.Sublist"
begin

section \<open>Library functions used by the program\<close>

text \<open>
  Go strings are byte sequences; they are modelled as \<open>string\<close> (a list of 8-bit
  characters). The functions below are the parts of Go's \<open>strings\<close> and \<open>regexp\<close>
  packages that the program calls, restricted to how it calls them.
\<close>

text \<open>\<open>strings.HasPrefix(s, prefix)\<close>.\<close>

definition HasPrefix :: "string \<Rightarrow> string \<Rightarrow> bool" where
  "HasPrefix s pre = prefix pre s"

text \<open>
  \<open>strings.Trim(s, cutset)\<close> for an ASCII cutset: every leading and every trailing
  byte that occurs in \<open>cutset\<close> is removed.
\<close>

definition TrimLeft :: "string \<Rightarrow> string \<Rightarrow> string" where
  "TrimLeft s cutset = dropWhile (\<lambda>c. c \<in> set cutset) s"

definition TrimRight :: "string \<Rightarrow> string \<Rightarrow> string" where
  "TrimRight s cutset = rev (dropWhile (\<lambda>c. c \<in> set cutset) (rev s))"

definition Trim :: "string \<Rightarrow> string \<Rightarrow> string" where
  "Trim s cutset = TrimLeft (TrimRight s cutset) cutset"

text \<open>\<open>strings.TrimPrefix(s, prefix)\<close>: what a prefix strip would compute.\<close>

definition TrimPrefix :: "string \<Rightarrow> string \<Rightarrow> string" where
  "TrimPrefix s pre = (if HasPrefix s pre then drop (length pre) s else s)"

text \<open>
  \<open>strings.ToLower(s)\<close> on ASCII text: the letters A to Z are mapped to a to z and
  every other byte is kept.
\<close>

definition upper_letters :: string where
  "upper_letters = ''ABCDEFGHIJKLMNOPQRSTUVWXYZ''"

definition lower_letters :: string where
  "lower_letters = ''abcdefghijklmnopqrstuvwxyz''"

definition digits :: string where
  "digits = ''0123456789''"

definition lower_char :: "char \<Rightarrow> char" where
  "lower_char c = (case map_of (zip upper_letters lower_letters) c of Some l \<Rightarrow> l | None \<Rightarrow> c)"

definition ToLower :: "string \<Rightarrow> string" where
  "ToLower s = map lower_char s"

text \<open>
  \<open>strings.Split(s, sep)\<close> for a one-byte separator: the pieces between the
  separators, empty pieces included; the empty string gives one empty piece.
\<close>

fun Split :: "string \<Rightarrow> char \<Rightarrow> string list" where
  "Split [] sep = [[]]"
| "Split (x # xs) sep =
     (if x = sep then [] # Split xs sep
      else (case Split xs sep of [] \<Rightarrow> [[x]] | y # ys \<Rightarrow> (x # y) # ys))"

text \<open>
  The regular expression \<open>[a-zA-Z]+[0-9]{0,2}\<close> of \<open>netemDelay\<close>.
  \<open>FindString\<close> returns the leftmost match, with greedy repetitions, and the empty
  string when nothing matches: the match starts at the first letter, takes every
  letter that follows and then at most two digits.
\<close>

definition is_letter :: "char \<Rightarrow> bool" where
  "is_letter c = (c \<in> set lower_letters \<or> c \<in> set upper_letters)"

definition is_digit :: "char \<Rightarrow> bool" where
  "is_digit c = (c \<in> set digits)"

definition reInterface_FindString :: "string \<Rightarrow> string" where
  "reInterface_FindString s =
     (let from_letter = dropWhile (\<lambda>c. \<not> is_letter c) s;
          word = takeWhile is_letter from_letter;
          rest = dropWhile is_letter from_letter
      in word @ takeWhile is_digit (take 2 rest))"

text \<open>
  The specification's reading of the same expression: the whole string is one or
  more letters followed by at most two digits.
\<close>

definition matches_reInterface :: "string \<Rightarrow> bool" where
  "matches_reInterface s =
     (let word = takeWhile is_letter s; rest = dropWhile is_letter s
      in word \<noteq> [] \<and> length rest \<le> 2 \<and> list_all is_digit rest)"

section \<open>The container runtime and the observable effects\<close>

type_synonym error = string

text \<open>Arguments of a formatted log call; a duration is kept as its nanosecond count.\<close>

datatype arg = S string | L "string list" | D int

datatype level = Debug | Info | Error

record ContainerRemoveOptions =
  RemoveVolumes :: bool
  RemoveLinks :: bool
  Force :: bool

record ExecConfig =
  Privileged :: bool
  Cmd :: "string list"

text \<open>
  What the program does to the outside, in the order it does it: log lines (the
  format string and its arguments), sleeps, and the calls to the runtime API.
\<close>

datatype event =
    Log level string "arg list"
  | Slept int
  | ApiKillContainer string string
  | ApiInspectContainer string
  | ApiPauseContainer string
  | ApiUnpauseContainer string
  | ApiContainerRemove string ContainerRemoveOptions
  | ApiContainerExecCreate string ExecConfig
  | ApiContainerExecStart string

text \<open>The part of \<open>dockerclient.ContainerInfo\<close> the program reads: \<open>State.Running\<close>.\<close>

record ContainerInfo =
  Running :: bool

text \<open>
  The runtime behind the two API clients of \<open>dockerClient\<close> (\<open>api\<close> and
  \<open>apiClient\<close>): each operation reads the runtime's state \<open>'s\<close>, answers with an
  error or a value and leaves a new state. Every failure is a value.
\<close>

record 's dockerClient =
  api_KillContainer :: "string \<Rightarrow> string \<Rightarrow> 's \<Rightarrow> error option \<times> 's"
  api_InspectContainer :: "string \<Rightarrow> 's \<Rightarrow> (error + ContainerInfo) \<times> 's"
  api_PauseContainer :: "string \<Rightarrow> 's \<Rightarrow> error option \<times> 's"
  api_UnpauseContainer :: "string \<Rightarrow> 's \<Rightarrow> error option \<times> 's"
  apiClient_ContainerRemove :: "string \<Rightarrow> ContainerRemoveOptions \<Rightarrow> 's \<Rightarrow> error option \<times> 's"
  apiClient_ContainerExecCreate :: "string \<Rightarrow> ExecConfig \<Rightarrow> 's \<Rightarrow> (error + string) \<times> 's"
  apiClient_ContainerExecStart :: "string \<Rightarrow> 's \<Rightarrow> error option \<times> 's"

text \<open>
  The world the program runs in: the runtime's state, a clock in nanoseconds and
  the trace of effects so far. Only \<open>time.Sleep\<close> advances the clock; API calls
  are taken to be instantaneous.
\<close>

record 's world =
  rt :: 's
  clock :: int
  trace :: "event list"

definition emit :: "event \<Rightarrow> 's world \<Rightarrow> 's world" where
  "emit e w = w\<lparr>trace := trace w @ [e]\<rparr>"

definition Infof :: "string \<Rightarrow> arg list \<Rightarrow> 's world \<Rightarrow> 's world" where
  "Infof fmt args w = emit (Log Info fmt args) w"

definition Debugf :: "string \<Rightarrow> arg list \<Rightarrow> 's world \<Rightarrow> 's world" where
  "Debugf fmt args w = emit (Log Debug fmt args) w"

text \<open>\<open>log.Error(err)\<close>: the message is the only argument.\<close>

definition LogError :: "error \<Rightarrow> 's world \<Rightarrow> 's world" where
  "LogError err w = emit (Log Error ''%s'' [S err]) w"

text \<open>
  \<open>time.Sleep(d)\<close>: a negative or zero duration returns at once.
\<close>

definition Sleep :: "int \<Rightarrow> 's world \<Rightarrow> 's world" where
  "Sleep d w = emit (Slept d) (w\<lparr>clock := clock w + max 0 d\<rparr>)"

definition Second :: int where
  "Second = 1000000000"

text \<open>A call to the runtime: the call is recorded, the runtime answers and moves on.\<close>

definition call :: "event \<Rightarrow> ('s \<Rightarrow> 'r \<times> 's) \<Rightarrow> 's world \<Rightarrow> 'r \<times> 's world" where
  "call e f w = (case f (rt w) of (r, s') \<Rightarrow> (r, emit e (w\<lparr>rt := s'\<rparr>)))"

section \<open>The runtime client (package container)\<close>

text \<open>
  Modelled from the spec: the type \<open>Container\<close> and its methods \<open>ID()\<close>,
  \<open>Name()\<close> and \<open>StopSignal()\<close> are declared outside the files at hand. A
  container is the record of what these methods return: the stable identifier, the
  display name, and the value of the stop-signal label (empty when the label is absent).
\<close>

record Container =
  ID :: string
  Name :: string
  StopSignal :: string

text \<open>
  \<open>net.IP\<close>: the program tests the address against \<open>nil\<close> and reads its
  \<open>String()\<close>; a non-nil address is represented by that rendering.
\<close>

datatype IP = IP (IP_String: string)

definition defaultStopSignal :: string where
  "defaultStopSignal = ''SIGTERM''"

definition defaultKillSignal :: string where
  "defaultKillSignal = ''SIGKILL''"

definition dryRunPrefix :: string where
  "dryRunPrefix = ''DRY: ''"

definition KillContainer ::
  "'s dockerClient \<Rightarrow> Container \<Rightarrow> string \<Rightarrow> bool \<Rightarrow> 's world \<Rightarrow> error option \<times> 's world" where
  "KillContainer client c signal dryrun w =
     (let prefix = (if dryrun then dryRunPrefix else '''');
          w1 = Infof ''%sKilling %s (%s) with signal %s'' [S prefix, S (Name c), S (ID c), S signal] w
      in if \<not> dryrun then
           (case call (ApiKillContainer (ID c) signal) (api_KillContainer client (ID c) signal) w1 of
              (Some err, w2) \<Rightarrow> (Some err, w2)
            | (None, w2) \<Rightarrow> (None, w2))
         else (None, w1))"

text \<open>
  \<open>waitForStop\<close>: the timer of \<open>time.After\<close> has fired once the clock has reached
  the deadline; the \<open>select\<close> then returns nil, and otherwise takes the default
  branch, which inspects the container. Each round ends with a sleep of one second.
\<close>

lemma clock_call [simp]: "call e f w = (r, w') \<Longrightarrow> clock w' = clock w"
  by (auto simp: call_def emit_def split: prod.splits)

lemma clock_Sleep [simp]: "clock (Sleep d w) = clock w + max 0 d"
  by (simp add: Sleep_def emit_def)

function waitForStop_loop ::
  "'s dockerClient \<Rightarrow> Container \<Rightarrow> int \<Rightarrow> 's world \<Rightarrow> error option \<times> 's world" where
  "waitForStop_loop client c deadline w =
     (if deadline \<le> clock w then (None, w)
      else (case call (ApiInspectContainer (ID c)) (api_InspectContainer client (ID c)) w of
              (Inl err, w1) \<Rightarrow> (Some err, w1)
            | (Inr ci, w1) \<Rightarrow>
                if \<not> Running ci then (None, w1)
                else waitForStop_loop client c deadline (Sleep (1 * Second) w1)))"
  by pat_completeness auto
termination
  apply (relation "measure (\<lambda>(client, c, deadline, w). nat (deadline - clock w))")
   apply simp
  apply (auto simp: Second_def dest!: sym [THEN clock_call])
  done

text \<open>
  \<open>time.Duration(waitTime) * time.Second\<close> is a 64-bit product and wraps around.
\<close>

definition seconds :: "int \<Rightarrow> int" where
  "seconds waitTime = sint (word_of_int waitTime * 1000000000 :: 64 word)"

definition waitForStop ::
  "'s dockerClient \<Rightarrow> Container \<Rightarrow> int \<Rightarrow> 's world \<Rightarrow> error option \<times> 's world" where
  "waitForStop client c waitTime w = waitForStop_loop client c (clock w + seconds waitTime) w"

definition StopContainer ::
  "'s dockerClient \<Rightarrow> Container \<Rightarrow> int \<Rightarrow> bool \<Rightarrow> 's world \<Rightarrow> error option \<times> 's world" where
  "StopContainer client c timeout dryrun w =
     (let signal = StopSignal c;
          signal = (if signal = '''' then defaultStopSignal else signal);
          prefix = (if dryrun then dryRunPrefix else '''');
          w1 = Infof ''%sStopping %s (%s) with %s'' [S prefix, S (Name c), S (ID c), S signal] w
      in if \<not> dryrun then
           (case call (ApiKillContainer (ID c) signal) (api_KillContainer client (ID c) signal) w1 of
              (Some err, w2) \<Rightarrow> (Some err, w2)
            | (None, w2) \<Rightarrow>
                (case waitForStop client c timeout w2 of
                   (waited, w3) \<Rightarrow>
                     let w4 = (case waited of
                                 Some err \<Rightarrow>
                                   Debugf (''Error waiting for container %s (%s) to stop: '' @
                                           [CHR 0x27, CHR 0x27] @ ''%s'' @ [CHR 0x27])
                                     [S (Name c), S (ID c), S err] w3
                               | None \<Rightarrow> w3);
                         w5 = Debugf ''Killing container %s with %s'' [S (ID c), S defaultKillSignal] w4
                     in (case call (ApiKillContainer (ID c) defaultKillSignal)
                                (api_KillContainer client (ID c) defaultKillSignal) w5 of
                           (Some err, w6) \<Rightarrow> (Some err, w6)
                         | (None, w6) \<Rightarrow>
                             (case waitForStop client c timeout w6 of
                                (None, w7) \<Rightarrow>
                                  (Some (''Container '' @ Name c @ '' ('' @ ID c @
                                         '') could not be stopped''), w7)
                              | (Some err, w7) \<Rightarrow> (None, w7)))))
         else (None, w1))"

definition RemoveContainer ::
  "'s dockerClient \<Rightarrow> Container \<Rightarrow> bool \<Rightarrow> bool \<Rightarrow> bool \<Rightarrow> bool \<Rightarrow> 's world
     \<Rightarrow> error option \<times> 's world" where
  "RemoveContainer client c force links volumes dryrun w =
     (let prefix = (if dryrun then dryRunPrefix else '''');
          w1 = Infof ''%sRemoving container %s'' [S prefix, S (ID c)] w
      in if \<not> dryrun then
           (let removeOpts = \<lparr>RemoveVolumes = links, RemoveLinks = volumes, Force = force\<rparr>
            in call (ApiContainerRemove (ID c) removeOpts)
                 (apiClient_ContainerRemove client (ID c) removeOpts) w1)
         else (None, w1))"

definition execOnContainer ::
  "'s dockerClient \<Rightarrow> Container \<Rightarrow> string \<Rightarrow> bool \<Rightarrow> 's world \<Rightarrow> error option \<times> 's world" where
  "execOnContainer client c execCmd privileged w =
     (let config = \<lparr>Privileged = privileged, Cmd = Split execCmd CHR '' ''\<rparr>
      in case call (ApiContainerExecCreate (ID c) config)
                (apiClient_ContainerExecCreate client (ID c) config) w of
           (Inl err, w1) \<Rightarrow> (Some err, w1)
         | (Inr exec_ID, w1) \<Rightarrow>
             (let w2 = Debugf ''Starting Exec %s (%s)'' [S execCmd, S exec_ID] w1
              in call (ApiContainerExecStart exec_ID)
                   (apiClient_ContainerExecStart client exec_ID) w2))"

definition startNetemContainer ::
  "'s dockerClient \<Rightarrow> Container \<Rightarrow> string \<Rightarrow> string \<Rightarrow> bool \<Rightarrow> 's world
     \<Rightarrow> error option \<times> 's world" where
  "startNetemContainer client c netInterface netemCmd dryrun w =
     (let prefix = (if dryrun then dryRunPrefix else '''');
          w1 = Infof (''%sStart netem for container %s on '' @ [CHR 0x27] @ ''%s'' @ [CHR 0x27] @
                      '' with command '' @ [CHR 0x27] @ ''%s'' @ [CHR 0x27])
                 [S prefix, S (ID c), S netInterface, S netemCmd] w
      in if \<not> dryrun then
           (let netemCommand = ''tc qdisc add dev '' @ netInterface @ '' root netem '' @ ToLower netemCmd;
                w2 = Debugf (''netem command '' @ [CHR 0x27] @ ''%s'' @ [CHR 0x27]) [S netemCommand] w1
            in execOnContainer client c netemCommand True w2)
         else (None, w1))"

definition stopNetemContainer ::
  "'s dockerClient \<Rightarrow> Container \<Rightarrow> string \<Rightarrow> bool \<Rightarrow> 's world \<Rightarrow> error option \<times> 's world" where
  "stopNetemContainer client c netInterface dryrun w =
     (let prefix = (if dryrun then dryRunPrefix else '''');
          w1 = Infof (''%sStop netem for container %s on '' @ [CHR 0x27] @ ''%s'' @ [CHR 0x27])
                 [S prefix, S (ID c), S netInterface] w
      in if \<not> dryrun then
           (let netemCommand = ''tc qdisc del dev '' @ netInterface @ '' root netem'';
                w2 = Debugf (''netem command '' @ [CHR 0x27] @ ''%s'' @ [CHR 0x27]) [S netemCommand] w1
            in execOnContainer client c netemCommand True w2)
         else (None, w1))"

definition startNetemContainerIPFilter ::
  "'s dockerClient \<Rightarrow> Container \<Rightarrow> string \<Rightarrow> string \<Rightarrow> string \<Rightarrow> bool \<Rightarrow> 's world
     \<Rightarrow> error option \<times> 's world" where
  "startNetemContainerIPFilter client c netInterface netemCmd targetIP dryrun w =
     (let prefix = (if dryrun then dryRunPrefix else '''');
          w1 = Infof (''%sStart netem for container %s on '' @ [CHR 0x27] @ ''%s'' @ [CHR 0x27] @
                      '' with command '' @ [CHR 0x27] @ ''%s'' @ [CHR 0x27] @
                      '', filter by IP '' @ [CHR 0x27] @ ''%s'' @ [CHR 0x27])
                 [S prefix, S (ID c), S netInterface, S netemCmd, S targetIP] w
      in if \<not> dryrun then
           (let handleCommand = ''tc qdisc add dev '' @ netInterface @ '' root handle 1: prio'';
                w2 = Debugf ''handleCommand %s'' [S handleCommand] w1
            in case execOnContainer client c handleCommand True w2 of
                 (Some err, w3) \<Rightarrow> (Some err, w3)
               | (None, w3) \<Rightarrow>
                   (let netemCommand = ''tc qdisc add dev '' @ netInterface @ '' parent 1:3 netem '' @
                                       ToLower netemCmd;
                        w4 = Debugf ''netemCommand %s'' [S netemCommand] w3
                    in case execOnContainer client c netemCommand True w4 of
                         (Some err, w5) \<Rightarrow> (Some err, w5)
                       | (None, w5) \<Rightarrow>
                           (let filterCommand = ''tc filter add dev '' @ netInterface @
                                                '' protocol ip parent 1:0 prio 3 '' @
                                                ''u32 match ip dport '' @ ToLower targetIP @
                                                '' flowid 1:3'';
                                w6 = Debugf ''filterCommand %s'' [S filterCommand] w5
                            in execOnContainer client c filterCommand True w6)))
         else (None, w1))"

definition NetemContainer ::
  "'s dockerClient \<Rightarrow> Container \<Rightarrow> string \<Rightarrow> string \<Rightarrow> IP option \<Rightarrow> int \<Rightarrow> bool \<Rightarrow> 's world
     \<Rightarrow> error option \<times> 's world" where
  "NetemContainer client c netInterface netemCmd targetIP duration dryrun w =
     (let prefix = (if dryrun then dryRunPrefix else '''');
          started =
            (case targetIP of
               None \<Rightarrow>
                 startNetemContainer client c netInterface netemCmd dryrun
                   (Infof (''%sRunning netem command '' @ [CHR 0x27] @ ''%s'' @ [CHR 0x27] @
                           '' on container %s for %s'')
                      [S prefix, S netemCmd, S (ID c), D duration] w)
             | Some ip \<Rightarrow>
                 startNetemContainerIPFilter client c netInterface netemCmd (IP_String ip) dryrun
                   (Infof (''%sRunning netem command '' @ [CHR 0x27] @ ''%s'' @ [CHR 0x27] @
                           '' on container %s with filter %s for %s'')
                      [S prefix, S netemCmd, S (ID c), S (IP_String ip), D duration] w))
      in case started of
           (Some err, w1) \<Rightarrow> (Some err, w1)
         | (None, w1) \<Rightarrow>
             (let w2 = Sleep duration w1;
                  w3 = Infof ''%sStopping netem on container %s'' [S prefix, S (ID c)] w2
              in stopNetemContainer client c netInterface dryrun w3))"

definition PauseContainer ::
  "'s dockerClient \<Rightarrow> Container \<Rightarrow> int \<Rightarrow> bool \<Rightarrow> 's world \<Rightarrow> error option \<times> 's world" where
  "PauseContainer client c duration dryrun w =
     (let prefix = (if dryrun then dryRunPrefix else '''');
          w1 = Infof ''%sPausing container %s for %s'' [S prefix, S (ID c), D duration] w
      in if \<not> dryrun then
           (case call (ApiPauseContainer (ID c)) (api_PauseContainer client (ID c)) w1 of
              (Some err, w2) \<Rightarrow> (Some err, w2)
            | (None, w2) \<Rightarrow>
                (let w3 = Debugf ''Container %s paused for %s'' [S (ID c), D duration] w2;
                     w4 = Sleep duration w3
                 in case call (ApiUnpauseContainer (ID c)) (api_UnpauseContainer client (ID c)) w4 of
                      (Some err, w5) \<Rightarrow> (Some err, w5)
                    | (None, w5) \<Rightarrow>
                        (None, Debugf ''Container upaused %s after %s'' [S (ID c), D duration] w5)))
         else (None, w1))"

section \<open>The command surface (package main)\<close>

text \<open>
  \<open>cli.Context\<close>: the positional arguments, the values of the flags by name as
  the accessors \<open>GlobalString\<close>, \<open>String\<close> and \<open>Int\<close> return them (an unset
  string flag reads as its default value), and the context of the parent command.
\<close>

datatype Context = Context
  (Args: "string list")
  (GlobalString: "string \<Rightarrow> string")
  (String_flag: "string \<Rightarrow> string")
  (Int_flag: "string \<Rightarrow> int")
  (Parent: "Context option")

text \<open>
  The command values handed to the scheduler, with the fields \<open>main\<close> fills in.
\<close>

record CommandNetemDelay =
  NetInterface :: string
  NetemIP :: "IP option"
  Duration :: int
  Amount :: int
  Variation :: int
  Correlation :: int

datatype Command =
    CommandPause int
  | CommandNetem CommandNetemDelay

text \<open>
  How a command function ends: with a validation error, before anything is
  scheduled, or in \<open>runChaosCommand\<close> with the command value, the names, the
  pattern and the interval \<open>gInterval\<close>.
\<close>

datatype outcome =
    Rejected error
  | RunChaosCommand Command "string list" string int

definition Re2Prefix :: string where
  "Re2Prefix = ''re2:''"

definition getNamesOrPattern :: "Context \<Rightarrow> 's world \<Rightarrow> (string list \<times> string) \<times> 's world" where
  "getNamesOrPattern c w =
     (let names = []; pattern = ''''
      in if Args c \<noteq> [] then
           (if length (Args c) > 1 then
              (let names = Args c
               in ((names, pattern),
                   Debugf (''Names: '' @ [CHR 0x27] @ ''%s'' @ [CHR 0x27]) [L names] w))
            else
              (let first = hd (Args c)
               in if HasPrefix first Re2Prefix then
                    (let pattern = Trim first Re2Prefix
                     in ((names, pattern),
                         Debugf (''Pattern: '' @ [CHR 0x27] @ ''%s'' @ [CHR 0x27]) [S pattern] w))
                  else ((names, pattern), w)))
         else ((names, pattern), w))"

text \<open>
  \<open>beforeCommand\<close> reads the interval; on success its value is stored in
  \<open>gInterval\<close>. \<open>time.ParseDuration\<close> is a parameter.
\<close>

definition beforeCommand :: "(string \<Rightarrow> error + int) \<Rightarrow> Context \<Rightarrow> error + int" where
  "beforeCommand ParseDuration c =
     (let intervalString = GlobalString c ''interval''
      in if intervalString = '''' then Inl ''Undefined interval value.''
         else (case ParseDuration intervalString of
                 Inl err \<Rightarrow> Inl err
               | Inr interval \<Rightarrow> Inr interval))"

definition pause ::
  "(string \<Rightarrow> error + int) \<Rightarrow> int \<Rightarrow> Context \<Rightarrow> 's world \<Rightarrow> outcome \<times> 's world" where
  "pause ParseDuration gInterval c w =
     (case getNamesOrPattern c w of
        ((names, pattern), w1) \<Rightarrow>
          (let durationString = String_flag c ''duration''
           in if durationString = '''' then
                (let err = ''Undefined duration interval'' in (Rejected err, LogError err w1))
              else
                (case ParseDuration durationString of
                   Inl err \<Rightarrow> (Rejected err, LogError err w1)
                 | Inr duration \<Rightarrow>
                     (RunChaosCommand (CommandPause duration) names pattern gInterval, w1))))"

definition netemDelay ::
  "(string \<Rightarrow> error + int) \<Rightarrow> (string \<Rightarrow> IP option) \<Rightarrow> int \<Rightarrow> Context \<Rightarrow> 's world
     \<Rightarrow> outcome \<times> 's world" where
  "netemDelay ParseDuration ParseIP gInterval c w =
     (case getNamesOrPattern c w of
        ((names, pattern), w1) \<Rightarrow>
          (let durationString = (case Parent c of Some p \<Rightarrow> String_flag p ''duration'' | None \<Rightarrow> '''')
           in if durationString = '''' then
                (let err = ''Undefined duration interval'' in (Rejected err, LogError err w1))
              else
                (case ParseDuration durationString of
                   Inl err \<Rightarrow> (Rejected err, LogError err w1)
                 | Inr duration \<Rightarrow>
                     (let netInterface = (case Parent c of
                                            Some p \<Rightarrow> String_flag p ''interface''
                                          | None \<Rightarrow> ''eth0'');
                          validInterface = reInterface_FindString netInterface
                      in if Parent c \<noteq> None \<and> netInterface \<noteq> validInterface then
                           (let err = ''Bad network interface name. Must match '' @ [CHR 0x27] @
                                      ''[a-zA-Z]+[0-9]{0,2}'' @ [CHR 0x27]
                            in (Rejected err, LogError err w1))
                         else
                           (let ip = (case Parent c of
                                        Some p \<Rightarrow> ParseIP (String_flag p ''target'')
                                      | None \<Rightarrow> None);
                                amount = Int_flag c ''amount''
                            in if amount \<le> 0 then
                                 (let err = ''Invalid delay amount'' in (Rejected err, LogError err w1))
                               else
                                 (let variation = Int_flag c ''variation''
                                  in if variation < 0 \<or> variation > amount then
                                       (let err = ''Invalid delay variation''
                                        in (Rejected err, LogError err w1))
                                     else
                                       (let correlation = Int_flag c ''correlation''
                                        in if correlation < 0 \<or> correlation > 100 then
                                             (let err = ''Invalid delay correlation: must be between 0 and 100''
                                              in (Rejected err, LogError err w1))
                                           else
                                             (let delayCmd = \<lparr>NetInterface = netInterface,
                                                              NetemIP = ip,
                                                              Duration = duration,
                                                              Amount = amount,
                                                              Variation = variation,
                                                              Correlation = correlation\<rparr>
                                              in (RunChaosCommand (CommandNetem delayCmd) names pattern
                                                    gInterval, w1)))))))))"

text \<open>
  A command of the application runs its \<open>Before\<close> function first and its
  \<open>Action\<close> only when \<open>Before\<close> returned no error.
\<close>

definition run_pause ::
  "(string \<Rightarrow> error + int) \<Rightarrow> Context \<Rightarrow> 's world \<Rightarrow> outcome \<times> 's world" where
  "run_pause ParseDuration c w =
     (case beforeCommand ParseDuration c of
        Inl err \<Rightarrow> (Rejected err, w)
      | Inr gInterval \<Rightarrow> pause ParseDuration gInterval c w)"

definition run_netemDelay ::
  "(string \<Rightarrow> error + int) \<Rightarrow> (string \<Rightarrow> IP option) \<Rightarrow> Context \<Rightarrow> 's world
     \<Rightarrow> outcome \<times> 's world" where
  "run_netemDelay ParseDuration ParseIP c w =
     (case beforeCommand ParseDuration c of
        Inl err \<Rightarrow> (Rejected err, w)
      | Inr gInterval \<Rightarrow> netemDelay ParseDuration ParseIP gInterval c w)"

section \<open>Reading a trace\<close>

text \<open>
  The calls to the runtime in a list of events, and the events that are not log
  lines (calls and sleeps).
\<close>

fun is_call :: "event \<Rightarrow> bool" where
  "is_call (Log lvl fmt args) = False"
| "is_call (Slept d) = False"
| "is_call e = True"

fun is_log :: "event \<Rightarrow> bool" where
  "is_log (Log lvl fmt args) = True"
| "is_log e = False"

fun is_sleep :: "event \<Rightarrow> bool" where
  "is_sleep (Slept d) = True"
| "is_sleep e = False"

definition calls :: "event list \<Rightarrow> event list" where
  "calls evs = filter is_call evs"

definition effects :: "event list \<Rightarrow> event list" where
  "effects evs = filter (\<lambda>e. \<not> is_log e) evs"

definition sleeps :: "event list \<Rightarrow> event list" where
  "sleeps evs = filter is_sleep evs"

text \<open>The events that an operation started in \<open>w\<close> had added when it ended in \<open>w'\<close>.\<close>

definition since :: "'s world \<Rightarrow> 's world \<Rightarrow> event list" where
  "since w w' = drop (length (trace w)) (trace w')"

definition extends :: "'s world \<Rightarrow> 's world \<Rightarrow> bool" where
  "extends w w' = (take (length (trace w)) (trace w') = trace w)"

text \<open>
  A log line of a dry run: an info line whose format starts with \<open>%s\<close> and whose
  first argument is the prefix \<open>DRY: \<close>.
\<close>

fun dry_line :: "event \<Rightarrow> bool" where
  "dry_line (Log lvl fmt (S p # args)) = (lvl = Info \<and> take 2 fmt = ''%s'' \<and> p = ''DRY: '')"
| "dry_line e = False"

text \<open>
  What the specification asks of an operation in a dry run that started in \<open>w\<close>
  and gave \<open>res\<close>: success, a \<open>DRY: \<close> line among the new events, no call to the
  runtime among them, and the runtime's state untouched.
\<close>

definition dry_run_only :: "'s world \<Rightarrow> error option \<times> 's world \<Rightarrow> bool" where
  "dry_run_only w res =
     (fst res = None \<and> extends w (snd res) \<and> rt (snd res) = rt w \<and>
      list_ex dry_line (since w (snd res)) \<and> calls (since w (snd res)) = [])"

text \<open>The signal \<open>stop\<close> sends first: the stop-signal label if present, else SIGTERM.\<close>

definition stop_signal :: "Container \<Rightarrow> string" where
  "stop_signal c = (if StopSignal c = '''' then ''SIGTERM'' else StopSignal c)"

text \<open>
  The number of inspections a wait of \<open>d\<close> nanoseconds can make at one per second.
\<close>

definition polls :: "int \<Rightarrow> int" where
  "polls d = max 0 ((d + Second - 1) div Second)"

text \<open>
  The specification of the network emulation: a script of privileged execs, each a
  create followed by a start, each run before the next and the first failure ending
  the script. It gives the error or success, the runtime's state and the calls made.
\<close>

fun exec_script ::
  "'s dockerClient \<Rightarrow> string \<Rightarrow> string list list \<Rightarrow> 's \<Rightarrow> error option \<times> 's \<times> event list" where
  "exec_script client cid [] s = (None, s, [])"
| "exec_script client cid (argv # rest) s =
     (let config = \<lparr>Privileged = True, Cmd = argv\<rparr>
      in case apiClient_ContainerExecCreate client cid config s of
           (Inl err, s1) \<Rightarrow> (Some err, s1, [ApiContainerExecCreate cid config])
         | (Inr x, s1) \<Rightarrow>
             (case apiClient_ContainerExecStart client x s1 of
                (Some err, s2) \<Rightarrow>
                  (Some err, s2, [ApiContainerExecCreate cid config, ApiContainerExecStart x])
              | (None, s2) \<Rightarrow>
                  (case exec_script client cid rest s2 of
                     (r, s3, evs) \<Rightarrow>
                       (r, s3, ApiContainerExecCreate cid config # ApiContainerExecStart x # evs))))"

definition argv :: "string \<Rightarrow> string list" where
  "argv commandline = Split commandline CHR '' ''"

definition netem_setup :: "string \<Rightarrow> string \<Rightarrow> IP option \<Rightarrow> string list list" where
  "netem_setup iface spec target =
     (case target of
        None \<Rightarrow> [argv (''tc qdisc add dev '' @ iface @ '' root netem '' @ ToLower spec)]
      | Some ip \<Rightarrow>
          [argv (''tc qdisc add dev '' @ iface @ '' root handle 1: prio''),
           argv (''tc qdisc add dev '' @ iface @ '' parent 1:3 netem '' @ ToLower spec),
           argv (''tc filter add dev '' @ iface @ '' protocol ip parent 1:0 prio 3 u32 match ip dport '' @
                 ToLower (IP_String ip) @ '' flowid 1:3'')])"

definition netem_teardown :: "string \<Rightarrow> string list list" where
  "netem_teardown iface = [argv (''tc qdisc del dev '' @ iface @ '' root netem'')]"

definition netem_script ::
  "'s dockerClient \<Rightarrow> Container \<Rightarrow> string \<Rightarrow> string \<Rightarrow> IP option \<Rightarrow> int \<Rightarrow> 's
     \<Rightarrow> error option \<times> 's \<times> event list" where
  "netem_script client c iface spec target duration s =
     (case exec_script client (ID c) (netem_setup iface spec target) s of
        (Some err, s1, evs) \<Rightarrow> (Some err, s1, evs)
      | (None, s1, evs) \<Rightarrow>
          (case exec_script client (ID c) (netem_teardown iface) s1 of
             (r, s2, evs') \<Rightarrow> (r, s2, evs @ Slept duration # evs')))"

section \<open>Concrete runtimes and inputs\<close>

text \<open>
  A runtime with one container, whose state is whether the container runs. A
  kill with one of the signals \<open>stoppers\<close> stops it, an exec is created under the
  identifier \<open>exec1\<close> unless its command is in \<open>refused\<close>, and nothing else fails.
\<close>

definition sim_client :: "string list \<Rightarrow> string list list \<Rightarrow> bool dockerClient" where
  "sim_client stoppers refused =
     \<lparr>api_KillContainer = (\<lambda>i sig running. (None, running \<and> sig \<notin> set stoppers)),
      api_InspectContainer = (\<lambda>i running. (Inr \<lparr>Running = running\<rparr>, running)),
      api_PauseContainer = (\<lambda>i running. (None, running)),
      api_UnpauseContainer = (\<lambda>i running. (None, running)),
      apiClient_ContainerRemove = (\<lambda>i opts running. (None, False)),
      apiClient_ContainerExecCreate =
        (\<lambda>i config running. (if Cmd config \<in> set refused then Inl ''refused'' else Inr ''exec1'', running)),
      apiClient_ContainerExecStart = (\<lambda>i running. (None, running))\<rparr>"

definition world0 :: "bool world" where
  "world0 = \<lparr>rt = True, clock = 0, trace = []\<rparr>"

definition foo :: Container where
  "foo = \<lparr>ID = ''abc123'', Name = ''foo'', StopSignal = ''''\<rparr>"

text \<open>
  A duration parser for the counted seconds \<open>1s\<close> to \<open>9s\<close>, as
  \<open>time.ParseDuration\<close> reads them; everything else is refused here.
\<close>

definition parse_seconds :: "string \<Rightarrow> error + int" where
  "parse_seconds s =
     (case s of
        [d, u] \<Rightarrow>
          (if u = CHR ''s'' \<and> d \<in> set ''123456789''
           then Inr (int (length (takeWhile (\<lambda>x. x \<noteq> d) ''123456789'') + 1) * Second)
           else Inl (''time: invalid duration '' @ s))
      | _ \<Rightarrow> Inl (''time: invalid duration '' @ s))"

definition no_ip :: "string \<Rightarrow> IP option" where
  "no_ip s = None"

text \<open>Command lines: the global interval, the flags of the command and its arguments.\<close>

definition pause_context :: "string \<Rightarrow> string \<Rightarrow> string list \<Rightarrow> Context" where
  "pause_context interval duration args =
     Context args (\<lambda>n. if n = ''interval'' then interval else '''')
       (\<lambda>n. if n = ''duration'' then duration else '''') (\<lambda>n. 0) None"

definition netem_context :: "string \<Rightarrow> string \<Rightarrow> string \<Rightarrow> string list \<Rightarrow> Context" where
  "netem_context interval duration iface args =
     Context args (\<lambda>n. if n = ''interval'' then interval else '''')
       (\<lambda>n. '''')
       (\<lambda>n. if n = ''amount'' then 100 else if n = ''variation'' then 10
             else if n = ''correlation'' then 20 else 0)
       (Some (Context args (\<lambda>n. if n = ''interval'' then interval else '''')
                (\<lambda>n. if n = ''duration'' then duration
                      else if n = ''interface'' then iface else '''')
                (\<lambda>n. 0) None))"

section \<open>Basic facts about worlds and traces\<close>

lemmas world_defs = emit_def Infof_def Debugf_def LogError_def Sleep_def call_def

lemmas read_defs = since_def extends_def calls_def effects_def sleeps_def

lemma call_facts:
  assumes "call e f w = (r, w')"
  shows "trace w' = trace w @ [e]" and "rt w' = snd (f (rt w))" and "r = fst (f (rt w))"
    and "clock w' = clock w"
  using assms by (auto simp: call_def emit_def split: prod.splits)

lemma calls_append [simp]: "calls (xs @ ys) = calls xs @ calls ys"
  by (simp add: calls_def)

lemma calls_simps [simp]:
  "calls [] = []"
  "calls (Log lvl fmt args # evs) = calls evs"
  "calls (Slept d # evs) = calls evs"
  "calls (ApiKillContainer i sig # evs) = ApiKillContainer i sig # calls evs"
  by (simp_all add: calls_def)

lemma since_append [simp]: "trace w' = trace w @ evs \<Longrightarrow> since w w' = evs"
  by (simp add: since_def)

section \<open>Dry runs\<close>

lemma KillContainer_dry: "dry_run_only w (KillContainer client c signal True w)"
  by (simp add: KillContainer_def dry_run_only_def dryRunPrefix_def world_defs read_defs Let_def)

lemma StopContainer_dry: "dry_run_only w (StopContainer client c timeout True w)"
  by (simp add: StopContainer_def dry_run_only_def dryRunPrefix_def world_defs read_defs Let_def)

lemma RemoveContainer_dry: "dry_run_only w (RemoveContainer client c force links volumes True w)"
  by (simp add: RemoveContainer_def dry_run_only_def dryRunPrefix_def world_defs read_defs Let_def)

lemma PauseContainer_dry: "dry_run_only w (PauseContainer client c duration True w)"
  by (simp add: PauseContainer_def dry_run_only_def dryRunPrefix_def world_defs read_defs Let_def)

lemma NetemContainer_dry:
  "dry_run_only w (NetemContainer client c netInterface netemCmd targetIP duration True w)"
  by (cases targetIP)
     (simp_all add: NetemContainer_def startNetemContainer_def startNetemContainerIPFilter_def
        stopNetemContainer_def dry_run_only_def dryRunPrefix_def world_defs read_defs Let_def)

text \<open>
  Claim C1. With the dry flag set, each of the five operations of the runtime
  client (kill, stop, remove, pause, netem), on every container and with every
  parameter, returns success, logs a line with the prefix \<open>DRY: \<close>, and makes no
  call to the runtime at all: none of kill, pause, unpause, remove, exec-create and
  exec-start, and no inspect either. The runtime's state is the one it started in.
\<close>

theorem dry_run_makes_no_runtime_call:
  "dry_run_only w (KillContainer client c signal True w) \<and>
   dry_run_only w (StopContainer client c timeout True w) \<and>
   dry_run_only w (RemoveContainer client c force links volumes True w) \<and>
   dry_run_only w (PauseContainer client c duration True w) \<and>
   dry_run_only w (NetemContainer client c netInterface netemCmd targetIP duration True w)"
  by (simp add: KillContainer_dry StopContainer_dry RemoveContainer_dry PauseContainer_dry
        NetemContainer_dry)

text \<open>
  Claim C10. In a dry run the two transient disruptions differ in time. A dry
  \<open>PauseContainer\<close> returns success at once: no call, no sleep, the clock where it
  was. A dry \<open>NetemContainer\<close> makes no call either, but sleeps once, for the whole
  duration, before it returns success.
\<close>

theorem dry_pause_returns_at_once_dry_netem_sleeps:
  "extends w (snd (PauseContainer client c duration True w)) \<and>
   extends w (snd (NetemContainer client c netInterface netemCmd targetIP duration True w)) \<and>
   fst (PauseContainer client c duration True w) = None \<and>
   clock (snd (PauseContainer client c duration True w)) = clock w \<and>
   sleeps (since w (snd (PauseContainer client c duration True w))) = [] \<and>
   calls (since w (snd (PauseContainer client c duration True w))) = [] \<and>
   fst (NetemContainer client c netInterface netemCmd targetIP duration True w) = None \<and>
   clock (snd (NetemContainer client c netInterface netemCmd targetIP duration True w)) =
     clock w + max 0 duration \<and>
   sleeps (since w (snd (NetemContainer client c netInterface netemCmd targetIP duration True w))) =
     [Slept duration] \<and>
   calls (since w (snd (NetemContainer client c netInterface netemCmd targetIP duration True w))) = []"
  by (cases targetIP)
     (simp_all add: PauseContainer_def NetemContainer_def startNetemContainer_def
        startNetemContainerIPFilter_def stopNetemContainer_def world_defs read_defs Let_def)

section \<open>Stop\<close>

lemma polls_nonneg: "0 \<le> polls d"
  by (simp add: polls_def)

lemma polls_first: "1 \<le> d \<Longrightarrow> 1 \<le> polls d"
  by (simp add: polls_def Second_def)

lemma polls_next: "1 \<le> d \<Longrightarrow> 1 + polls (d - Second) \<le> polls d"
  by (simp add: polls_def Second_def)

text \<open>
  A wait only inspects the container, at most once for every second of its timeout.
\<close>

lemma waitForStop_loop_polls:
  "waitForStop_loop client c deadline w = (r, w') \<Longrightarrow>
     \<exists>evs n. trace w' = trace w @ evs \<and> calls evs = replicate n (ApiInspectContainer (ID c)) \<and>
             int n \<le> polls (deadline - clock w)"
proof (induction client c deadline w arbitrary: r w' rule: waitForStop_loop.induct)
  case (1 client c deadline w)
  show ?case
  proof (cases "deadline \<le> clock w")
    case True
    with "1.prems" have "w' = w" by simp
    then have "trace w' = trace w @ [] \<and> calls [] = replicate 0 (ApiInspectContainer (ID c)) \<and>
                 int 0 \<le> polls (deadline - clock w)"
      by (simp add: polls_nonneg)
    then show ?thesis by blast
  next
    case False
    obtain x w1 where inspect:
      "call (ApiInspectContainer (ID c)) (api_InspectContainer client (ID c)) w = (x, w1)"
      by fastforce
    note w1 = call_facts(1,4) [OF inspect]
    from False have pos: "1 \<le> deadline - clock w" by simp
    have one: "trace w1 = trace w @ [ApiInspectContainer (ID c)] \<and>
               calls [ApiInspectContainer (ID c)] = replicate 1 (ApiInspectContainer (ID c)) \<and>
               int 1 \<le> polls (deadline - clock w)"
      using w1 polls_first [OF pos] by (simp add: calls_def)
    show ?thesis
    proof (cases x)
      case (Inl err)
      with "1.prems" False inspect have "w' = w1" by simp
      with one show ?thesis by blast
    next
      case (Inr ci)
      show ?thesis
      proof (cases "Running ci")
        case False
        with "1.prems" \<open>\<not> deadline \<le> clock w\<close> inspect Inr have "w' = w1" by simp
        with one show ?thesis by blast
      next
        case True
        with "1.prems" \<open>\<not> deadline \<le> clock w\<close> inspect Inr
        have again: "waitForStop_loop client c deadline (Sleep (1 * Second) w1) = (r, w')" by simp
        from "1.IH" [OF \<open>\<not> deadline \<le> clock w\<close> inspect [symmetric] Inr _ again] True
        obtain evs n where evs: "trace w' = trace (Sleep (1 * Second) w1) @ evs"
          "calls evs = replicate n (ApiInspectContainer (ID c))"
          "int n \<le> polls (deadline - clock (Sleep (1 * Second) w1))"
          by auto
        have "trace w' = trace w @ (ApiInspectContainer (ID c) # Slept (1 * Second) # evs)"
          using evs(1) w1(1) by (simp add: Sleep_def emit_def)
        moreover have "calls (ApiInspectContainer (ID c) # Slept (1 * Second) # evs) =
                         replicate (Suc n) (ApiInspectContainer (ID c))"
          using evs(2) by (simp add: calls_def)
        moreover have "int (Suc n) \<le> polls (deadline - clock w)"
        proof -
          have "deadline - clock (Sleep (1 * Second) w1) = deadline - clock w - Second"
            using w1(2) by (simp add: Second_def)
          then have "polls (deadline - clock (Sleep (1 * Second) w1)) =
                       polls (deadline - clock w - Second)"
            by (rule arg_cong)
          with evs(3) polls_next [OF pos] show ?thesis by linarith
        qed
        ultimately show ?thesis by blast
      qed
    qed
  qed
qed

lemma waitForStop_polls:
  "waitForStop client c waitTime w = (r, w') \<Longrightarrow>
     \<exists>evs n. trace w' = trace w @ evs \<and> calls evs = replicate n (ApiInspectContainer (ID c)) \<and>
             int n \<le> polls (seconds waitTime)"
  using waitForStop_loop_polls [of client c "clock w + seconds waitTime" w r w']
  by (simp add: waitForStop_def)

text \<open>Without wrap-around a wait of \<open>t\<close> seconds inspects at most \<open>t\<close> times.\<close>

lemma sint64_of_int:
  "- (2 ^ 63) \<le> k \<Longrightarrow> k < 2 ^ 63 \<Longrightarrow> sint (word_of_int k :: 64 word) = k"
  by (simp add: sint_sbintrunc' signed_take_bit_int_eq_self)

lemma seconds_exact:
  assumes "0 \<le> t" and "t \<le> 9223372036"
  shows "seconds t = t * Second"
proof -
  have "- (2 ^ 63) \<le> t * (1000000000::int)" and "t * (1000000000::int) < 2 ^ 63"
    using assms by simp_all
  then have "sint (word_of_int (t * 1000000000) :: 64 word) = t * 1000000000"
    by (rule sint64_of_int)
  moreover have "(word_of_int t * 1000000000 :: 64 word) = word_of_int (t * 1000000000)"
    by simp
  ultimately show ?thesis
    by (simp only: seconds_def Second_def)
qed

lemma polls_seconds: "0 \<le> t \<Longrightarrow> t \<le> 9223372036 \<Longrightarrow> polls (seconds t) = t"
  by (simp only: seconds_exact) (simp add: polls_def Second_def)

text \<open>The steps of a stop that is not a dry run, with the bindings of the source inlined.\<close>

lemma StopContainer_steps:
  "StopContainer client c timeout False w =
     (case call (ApiKillContainer (ID c) (stop_signal c)) (api_KillContainer client (ID c) (stop_signal c))
             (Infof ''%sStopping %s (%s) with %s'' [S '''', S (Name c), S (ID c), S (stop_signal c)] w) of
        (Some err, w2) \<Rightarrow> (Some err, w2)
      | (None, w2) \<Rightarrow>
          (case waitForStop client c timeout w2 of
             (waited, w3) \<Rightarrow>
               (case call (ApiKillContainer (ID c) ''SIGKILL'') (api_KillContainer client (ID c) ''SIGKILL'')
                       (Debugf ''Killing container %s with %s'' [S (ID c), S ''SIGKILL'']
                          (case waited of
                             Some err \<Rightarrow>
                               Debugf (''Error waiting for container %s (%s) to stop: '' @
                                       [CHR 0x27, CHR 0x27] @ ''%s'' @ [CHR 0x27])
                                 [S (Name c), S (ID c), S err] w3
                           | None \<Rightarrow> w3)) of
                  (Some err, w6) \<Rightarrow> (Some err, w6)
                | (None, w6) \<Rightarrow>
                    (case waitForStop client c timeout w6 of
                       (None, w7) \<Rightarrow>
                         (Some (''Container '' @ Name c @ '' ('' @ ID c @ '') could not be stopped''), w7)
                     | (Some err, w7) \<Rightarrow> (None, w7)))))"
  unfolding StopContainer_def Let_def stop_signal_def defaultStopSignal_def defaultKillSignal_def
  by simp

lemma StopContainer_calls:
  assumes "StopContainer client c timeout False w = (r, w')"
  shows "\<exists>n m. calls (since w w') =
           (case fst (api_KillContainer client (ID c) (stop_signal c) (rt w)) of
              Some err \<Rightarrow> [ApiKillContainer (ID c) (stop_signal c)]
            | None \<Rightarrow>
                ApiKillContainer (ID c) (stop_signal c) # replicate n (ApiInspectContainer (ID c)) @
                ApiKillContainer (ID c) ''SIGKILL'' # replicate m (ApiInspectContainer (ID c))) \<and>
           int n \<le> polls (seconds timeout) \<and> int m \<le> polls (seconds timeout)"
proof -
  let ?sig = "stop_signal c"
  let ?w1 = "Infof ''%sStopping %s (%s) with %s'' [S '''', S (Name c), S (ID c), S ?sig] w"
  note body = assms [unfolded StopContainer_steps]
  obtain k1 w2 where kill1:
    "call (ApiKillContainer (ID c) ?sig) (api_KillContainer client (ID c) ?sig) ?w1 = (k1, w2)"
    by fastforce
  have w1: "trace ?w1 = trace w @ [Log Info ''%sStopping %s (%s) with %s''
                                     [S '''', S (Name c), S (ID c), S ?sig]]"
    "rt ?w1 = rt w"
    by (simp_all add: Infof_def emit_def)
  note k1 = call_facts [OF kill1]
  have zero: "int 0 \<le> polls (seconds timeout)" by (simp add: polls_nonneg)
  show ?thesis
  proof (cases k1)
    case (Some err)
    with body kill1 have "w' = w2"
      by simp
    with k1 w1 Some have "calls (since w w') = [ApiKillContainer (ID c) ?sig]"
      and "fst (api_KillContainer client (ID c) ?sig (rt w)) = Some err"
      by simp_all
    with zero show ?thesis
      by (intro exI [of _ 0]) simp
  next
    case None
    obtain r3 w3 where wait1: "waitForStop client c timeout w2 = (r3, w3)" by fastforce
    from waitForStop_polls [OF wait1] obtain evs1 n where
      evs1: "trace w3 = trace w2 @ evs1" "calls evs1 = replicate n (ApiInspectContainer (ID c))"
        "int n \<le> polls (seconds timeout)" by blast
    let ?w5 = "Debugf ''Killing container %s with %s'' [S (ID c), S ''SIGKILL'']
                 (case r3 of
                    Some err \<Rightarrow>
                      Debugf (''Error waiting for container %s (%s) to stop: '' @
                              [CHR 0x27, CHR 0x27] @ ''%s'' @ [CHR 0x27])
                        [S (Name c), S (ID c), S err] w3
                  | None \<Rightarrow> w3)"
    have "\<exists>logs. trace ?w5 = trace w3 @ logs \<and> calls logs = []"
      by (cases r3) (simp_all add: Debugf_def emit_def)
    then obtain logs where logs: "trace ?w5 = trace w3 @ logs" "calls logs = []" by blast
    obtain k2 w6 where kill2:
      "call (ApiKillContainer (ID c) ''SIGKILL'') (api_KillContainer client (ID c) ''SIGKILL'') ?w5 =
         (k2, w6)"
      by fastforce
    note k2 = call_facts [OF kill2]
    have upto6: "calls (since w w6) =
                   ApiKillContainer (ID c) ?sig # replicate n (ApiInspectContainer (ID c)) @
                   [ApiKillContainer (ID c) ''SIGKILL'']"
      using k2(1) logs evs1(1,2) k1(1) w1(1) by simp
    have first: "fst (api_KillContainer client (ID c) ?sig (rt w)) = None"
      using k1(3) None w1(2) by simp
    show ?thesis
    proof (cases k2)
      case (Some err)
      with body kill1 None wait1 kill2 have "w' = w6"
        by simp
      with upto6 first evs1(3) zero show ?thesis
        by (intro exI [of _ n] exI [of _ 0]) simp
    next
      case None2: None
      obtain r7 w7 where wait2: "waitForStop client c timeout w6 = (r7, w7)" by fastforce
      from waitForStop_polls [OF wait2] obtain evs2 m where
        evs2: "trace w7 = trace w6 @ evs2" "calls evs2 = replicate m (ApiInspectContainer (ID c))"
          "int m \<le> polls (seconds timeout)" by blast
      from body kill1 None wait1 kill2 None2 wait2 have "w' = w7"
        by (cases r7) simp_all
      moreover have "calls (since w w7) =
                       ApiKillContainer (ID c) ?sig # replicate n (ApiInspectContainer (ID c)) @
                       ApiKillContainer (ID c) ''SIGKILL'' # replicate m (ApiInspectContainer (ID c))"
        using evs2(1,2) k2(1) logs evs1(1,2) k1(1) w1(1) by simp
      ultimately show ?thesis using first evs1(3) evs2(3)
        by (intro exI [of _ n] exI [of _ m]) simp
    qed
  qed
qed

lemma StopContainer_extends: "extends w (snd (StopContainer client c timeout False w))"
  unfolding StopContainer_steps
  by (auto simp: extends_def Debugf_def Infof_def emit_def
           split: prod.splits option.splits dest!: call_facts(1) waitForStop_polls)

text \<open>
  Claim C2, as amended. A stop that is not a dry run first sends the container's
  stop-signal label if it has one, else SIGTERM. If that call fails nothing else is
  sent. Otherwise it inspects the container at most once per second of the wait
  (at most \<open>wait_seconds\<close> times when the product with one second does not wrap
  around), and then sends SIGKILL in every case: also when the container stopped
  within the wait or the inspection failed. Only inspections follow the SIGKILL.
\<close>

theorem StopContainer_sends_SIGKILL_after_every_wait:
  "\<exists>n m. extends w (snd (StopContainer client c timeout False w)) \<and>
         calls (since w (snd (StopContainer client c timeout False w))) =
           (case fst (api_KillContainer client (ID c) (stop_signal c) (rt w)) of
              Some err \<Rightarrow> [ApiKillContainer (ID c) (stop_signal c)]
            | None \<Rightarrow>
                ApiKillContainer (ID c) (stop_signal c) # replicate n (ApiInspectContainer (ID c)) @
                ApiKillContainer (ID c) ''SIGKILL'' # replicate m (ApiInspectContainer (ID c))) \<and>
         int n \<le> polls (seconds timeout) \<and> int m \<le> polls (seconds timeout) \<and>
         (0 \<le> timeout \<and> timeout \<le> 9223372036 \<longrightarrow> polls (seconds timeout) = timeout)"
proof -
  obtain r w' where "StopContainer client c timeout False w = (r, w')"
    by fastforce
  from StopContainer_calls [OF this] this polls_seconds [of timeout]
    StopContainer_extends [of w client c timeout]
  show ?thesis
    by auto
qed

theorem StopContainer_sends_SIGKILL_after_every_wait_witness:
  "\<exists>n m. calls (since world0 (snd (StopContainer (sim_client [''SIGKILL''] []) foo 2 False world0))) =
           ApiKillContainer ''abc123'' ''SIGTERM'' # replicate n (ApiInspectContainer ''abc123'') @
           ApiKillContainer ''abc123'' ''SIGKILL'' # replicate m (ApiInspectContainer ''abc123'') \<and>
         int n \<le> 2 \<and> int m \<le> 2"
proof -
  have first: "fst (api_KillContainer (sim_client [''SIGKILL''] []) ''abc123'' ''SIGTERM'' (rt world0)) = None"
    by (simp add: sim_client_def)
  have sig: "stop_signal foo = ''SIGTERM''" and id: "ID foo = ''abc123''"
    by (simp_all add: stop_signal_def foo_def)
  from StopContainer_sends_SIGKILL_after_every_wait
         [where w = world0 and client = "sim_client [''SIGKILL''] []" and c = foo and timeout = 2]
  obtain n m where
    "calls (since world0 (snd (StopContainer (sim_client [''SIGKILL''] []) foo 2 False world0))) =
       ApiKillContainer ''abc123'' ''SIGTERM'' # replicate n (ApiInspectContainer ''abc123'') @
       ApiKillContainer ''abc123'' ''SIGKILL'' # replicate m (ApiInspectContainer ''abc123'')"
    and "int n \<le> 2" and "int m \<le> 2"
    unfolding sig id first by auto
  then show ?thesis by blast
qed

text \<open>
  The claim as it was stated fails: here the SIGTERM stops the container, the first
  inspection of the wait reports that it no longer runs, and SIGKILL is sent all
  the same.
\<close>

theorem StopContainer_SIGKILL_to_stopped_container:
  "StopContainer (sim_client [''SIGTERM'', ''SIGKILL''] []) foo 1 False world0 =
     (Some ''Container foo (abc123) could not be stopped'',
      \<lparr>rt = False, clock = 0,
       trace = [Log Info ''%sStopping %s (%s) with %s'' [S '''', S ''foo'', S ''abc123'', S ''SIGTERM''],
                ApiKillContainer ''abc123'' ''SIGTERM'',
                ApiInspectContainer ''abc123'',
                Log Debug ''Killing container %s with %s'' [S ''abc123'', S ''SIGKILL''],
                ApiKillContainer ''abc123'' ''SIGKILL'',
                ApiInspectContainer ''abc123'']\<rparr>)"
  by (simp add: StopContainer_def sim_client_def foo_def world0_def waitForStop_def seconds_def
        Second_def defaultStopSignal_def defaultKillSignal_def world_defs Let_def)

text \<open>
  Claim C3. After the SIGKILL and the second wait, a container that an inspection
  reports as no longer running should make the stop succeed. Here the container
  ignores SIGTERM, runs through the first wait of two seconds and is stopped by the
  SIGKILL; the inspection of the second wait succeeds and reports that it does not
  run, and the stop returns the error ``could not be stopped''.
\<close>

theorem StopContainer_reports_stopped_container_as_error:
  "StopContainer (sim_client [''SIGKILL''] []) foo 2 False world0 =
     (Some ''Container foo (abc123) could not be stopped'',
      \<lparr>rt = False, clock = 2000000000,
       trace = [Log Info ''%sStopping %s (%s) with %s'' [S '''', S ''foo'', S ''abc123'', S ''SIGTERM''],
                ApiKillContainer ''abc123'' ''SIGTERM'',
                ApiInspectContainer ''abc123'', Slept 1000000000,
                ApiInspectContainer ''abc123'', Slept 1000000000,
                Log Debug ''Killing container %s with %s'' [S ''abc123'', S ''SIGKILL''],
                ApiKillContainer ''abc123'' ''SIGKILL'',
                ApiInspectContainer ''abc123'']\<rparr>)"
  by (simp add: StopContainer_def sim_client_def foo_def world0_def waitForStop_def seconds_def
        Second_def defaultStopSignal_def defaultKillSignal_def world_defs Let_def)

text \<open>
  A wait fails only with the error of a failed inspection, and a stop that is not a
  dry run succeeds only when the second wait fails: some inspection must fail.
\<close>

lemma waitForStop_loop_error:
  "waitForStop_loop client c deadline w = (Some err, w') \<Longrightarrow>
     \<exists>s. fst (api_InspectContainer client (ID c) s) = Inl err"
proof (induction client c deadline w arbitrary: w' rule: waitForStop_loop.induct)
  case (1 client c deadline w)
  from "1.prems" have late: "\<not> deadline \<le> clock w" by (auto split: if_splits)
  obtain x w1 where inspect:
    "call (ApiInspectContainer (ID c)) (api_InspectContainer client (ID c)) w = (x, w1)"
    by fastforce
  show ?case
  proof (cases x)
    case (Inl e)
    with "1.prems" late inspect have "e = err" by simp
    with call_facts(3) [OF inspect] Inl show ?thesis by metis
  next
    case (Inr ci)
    with "1.prems" late inspect have run: "Running ci"
      and again: "waitForStop_loop client c deadline (Sleep (1 * Second) w1) = (Some err, w')"
      by (auto split: if_splits)
    from "1.IH" [OF late inspect [symmetric] Inr _ again] run show ?thesis by simp
  qed
qed

lemma StopContainer_success:
  assumes "fst (StopContainer client c timeout False w) = None"
  shows "\<exists>err s. fst (api_InspectContainer client (ID c) s) = Inl err"
  using assms unfolding StopContainer_steps
  by (auto simp: waitForStop_def simp del: waitForStop_loop.simps
           split: prod.splits option.splits)
     (blast dest: waitForStop_loop_error)+

section \<open>Remove\<close>

text \<open>
  Claim C4. A remove that is not a dry run makes one remove call, and in its
  request the flag \<open>RemoveLinks\<close> should carry the argument \<open>links\<close> and the flag
  \<open>RemoveVolumes\<close> the argument \<open>volumes\<close>. The call is made once, but with the
  two exchanged: \<open>RemoveVolumes\<close> carries \<open>links\<close> and \<open>RemoveLinks\<close> carries
  \<open>volumes\<close>.
\<close>

theorem RemoveContainer_exchanges_links_and_volumes:
  "extends w (snd (RemoveContainer client c force links volumes False w)) \<and>
   calls (since w (snd (RemoveContainer client c force links volumes False w))) =
     [ApiContainerRemove (ID c) \<lparr>RemoveVolumes = links, RemoveLinks = volumes, Force = force\<rparr>]"
  by (simp add: RemoveContainer_def world_defs read_defs Let_def split: prod.splits)

section \<open>Network emulation\<close>

lemma exec_script_Cons2:
  "exec_script client cid (a # b # rest) s =
     (case exec_script client cid [a] s of
        (Some err, s1, evs) \<Rightarrow> (Some err, s1, evs)
      | (None, s1, evs) \<Rightarrow>
          (case exec_script client cid (b # rest) s1 of (r, s2, evs') \<Rightarrow> (r, s2, evs @ evs')))"
  by (auto simp: Let_def split: prod.splits sum.splits option.splits)

lemma execOnContainer_script:
  assumes "execOnContainer client c cmd True w = (r, w')"
  shows "\<exists>evs. trace w' = trace w @ evs \<and> clock w' = clock w \<and>
           exec_script client (ID c) [argv cmd] (rt w) = (r, rt w', effects evs)"
  using assms
  by (auto simp: execOnContainer_def argv_def world_defs effects_def Let_def
           split: prod.splits sum.splits option.splits)

lemma NetemContainer_unfiltered:
  assumes "NetemContainer client c iface spec None duration False w = (r, w')"
  shows "extends w w' \<and>
         netem_script client c iface spec None duration (rt w) = (r, rt w', effects (since w w'))"
  using assms
  apply (simp add: NetemContainer_def startNetemContainer_def stopNetemContainer_def Let_def
           split: prod.splits option.splits)
   apply (auto dest!: execOnContainer_script
            simp: netem_script_def netem_setup_def netem_teardown_def world_defs read_defs)
  done

lemma NetemContainer_filtered:
  assumes "NetemContainer client c iface spec (Some ip) duration False w = (r, w')"
  shows "extends w w' \<and>
         netem_script client c iface spec (Some ip) duration (rt w) = (r, rt w', effects (since w w'))"
  using assms
  apply (simp add: NetemContainer_def startNetemContainerIPFilter_def stopNetemContainer_def Let_def
           split: prod.splits option.splits)
   apply (auto dest!: execOnContainer_script
            simp: netem_script_def netem_setup_def netem_teardown_def world_defs read_defs
                  exec_script_Cons2
            simp del: exec_script.simps)
  done

text \<open>
  The renderings of \<open>net.IP\<close> have no upper-case letter, so that the lower-casing of
  the target address in the filter command changes nothing.
\<close>

lemma ToLower_without_upper_case: "set s \<inter> set upper_letters = {} \<Longrightarrow> ToLower s = s"
proof (induction s)
  case Nil
  then show ?case by (simp add: ToLower_def)
next
  case (Cons a s)
  then have "a \<notin> set upper_letters" and "set s \<inter> set upper_letters = {}" by auto
  then have "map_of (zip upper_letters lower_letters) a = None"
    and "ToLower s = s"
    using Cons.IH by (auto simp: map_of_eq_None_iff upper_letters_def lower_letters_def)
  then show ?case by (simp add: ToLower_def lower_char_def)
qed

text \<open>
  Claim C8. A netem action that is not a dry run does what the script
  \<open>netem_script\<close> says, and nothing else but logging. Without a target address the
  setup is one exec of \<open>tc qdisc add dev <iface> root netem <spec in lower case>\<close>;
  with a target address it is three execs in this order: the prio qdisc at the
  root, the netem child on parent 1:3, and the u32 filter with
  \<open>dport <target address> flowid 1:3\<close>. Each exec is a create followed by a start
  and is over before the next begins. When a setup exec fails the error is returned
  and nothing follows, so no teardown. Otherwise the action sleeps for the duration
  and then execs the teardown \<open>tc qdisc del dev <iface> root netem\<close>.
\<close>

theorem NetemContainer_runs_netem_script:
  "extends w (snd (NetemContainer client c iface spec target duration False w)) \<and>
   netem_script client c iface spec target duration (rt w) =
     (fst (NetemContainer client c iface spec target duration False w),
      rt (snd (NetemContainer client c iface spec target duration False w)),
      effects (since w (snd (NetemContainer client c iface spec target duration False w))))"
proof -
  obtain r w' where run: "NetemContainer client c iface spec target duration False w = (r, w')"
    by fastforce
  show ?thesis
  proof (cases target)
    case None
    with run NetemContainer_unfiltered [of client c iface spec duration w r w'] show ?thesis
      by simp
  next
    case (Some ip)
    with run NetemContainer_filtered [of client c iface spec ip duration w r w'] show ?thesis
      by simp
  qed
qed

text \<open>
  The script on the interface \<open>eth0\<close> with the command \<open>delay 1000ms\<close>, on a
  runtime where every exec succeeds, and on one that refuses the second setup exec.
\<close>

lemma netem_script_unfiltered_example:
  "netem_script (sim_client [] []) foo ''eth0'' ''delay 1000ms'' None 1000000 True =
     (None, True,
      [ApiContainerExecCreate ''abc123''
         \<lparr>Privileged = True,
          Cmd = [''tc'', ''qdisc'', ''add'', ''dev'', ''eth0'', ''root'', ''netem'', ''delay'', ''1000ms'']\<rparr>,
       ApiContainerExecStart ''exec1'',
       Slept 1000000,
       ApiContainerExecCreate ''abc123''
         \<lparr>Privileged = True, Cmd = [''tc'', ''qdisc'', ''del'', ''dev'', ''eth0'', ''root'', ''netem'']\<rparr>,
       ApiContainerExecStart ''exec1''])"
  by (simp add: netem_script_def netem_setup_def netem_teardown_def argv_def sim_client_def foo_def
        ToLower_def lower_char_def upper_letters_def lower_letters_def Let_def)

lemma netem_script_filtered_example:
  "netem_script (sim_client [] []) foo ''eth0'' ''delay 1000ms'' (Some (IP ''10.10.0.1'')) 1000000 True =
     (None, True,
      [ApiContainerExecCreate ''abc123''
         \<lparr>Privileged = True,
          Cmd = [''tc'', ''qdisc'', ''add'', ''dev'', ''eth0'', ''root'', ''handle'', ''1:'', ''prio'']\<rparr>,
       ApiContainerExecStart ''exec1'',
       ApiContainerExecCreate ''abc123''
         \<lparr>Privileged = True,
          Cmd = [''tc'', ''qdisc'', ''add'', ''dev'', ''eth0'', ''parent'', ''1:3'', ''netem'',
                 ''delay'', ''1000ms'']\<rparr>,
       ApiContainerExecStart ''exec1'',
       ApiContainerExecCreate ''abc123''
         \<lparr>Privileged = True,
          Cmd = [''tc'', ''filter'', ''add'', ''dev'', ''eth0'', ''protocol'', ''ip'', ''parent'', ''1:0'',
                 ''prio'', ''3'', ''u32'', ''match'', ''ip'', ''dport'', ''10.10.0.1'', ''flowid'', ''1:3'']\<rparr>,
       ApiContainerExecStart ''exec1'',
       Slept 1000000,
       ApiContainerExecCreate ''abc123''
         \<lparr>Privileged = True, Cmd = [''tc'', ''qdisc'', ''del'', ''dev'', ''eth0'', ''root'', ''netem'']\<rparr>,
       ApiContainerExecStart ''exec1''])"
  by (simp add: netem_script_def netem_setup_def netem_teardown_def argv_def sim_client_def foo_def
        ToLower_def lower_char_def upper_letters_def lower_letters_def Let_def)

lemma netem_script_setup_failure_example:
  "netem_script
     (sim_client [] [[''tc'', ''qdisc'', ''add'', ''dev'', ''eth0'', ''parent'', ''1:3'', ''netem'',
                      ''delay'', ''1000ms'']])
     foo ''eth0'' ''Delay 1000ms'' (Some (IP ''10.10.0.1'')) 1000000 True =
     (Some ''refused'', True,
      [ApiContainerExecCreate ''abc123''
         \<lparr>Privileged = True,
          Cmd = [''tc'', ''qdisc'', ''add'', ''dev'', ''eth0'', ''root'', ''handle'', ''1:'', ''prio'']\<rparr>,
       ApiContainerExecStart ''exec1'',
       ApiContainerExecCreate ''abc123''
         \<lparr>Privileged = True,
          Cmd = [''tc'', ''qdisc'', ''add'', ''dev'', ''eth0'', ''parent'', ''1:3'', ''netem'',
                 ''delay'', ''1000ms'']\<rparr>])"
  by (simp add: netem_script_def netem_setup_def netem_teardown_def argv_def sim_client_def foo_def
        ToLower_def lower_char_def upper_letters_def lower_letters_def Let_def)

section \<open>Targets\<close>

text \<open>With one argument the names are empty, whatever the argument is.\<close>

lemma getNamesOrPattern_single:
  "fst (getNamesOrPattern (Context [first] g s i p) w) =
     ([], if HasPrefix first Re2Prefix then Trim first Re2Prefix else '''')"
  by (simp add: getNamesOrPattern_def Let_def)

text \<open>
  Claim C5. With one argument that starts with \<open>re2:\<close> the pattern should be the
  argument without these four characters and with nothing else removed. For the
  argument \<open>re2:redis\<close> that is \<open>redis\<close>; the pattern computed is \<open>dis\<close>, since
  every leading character among r, e, 2 and the colon is cut.
\<close>

theorem getNamesOrPattern_cuts_more_than_the_prefix:
  "fst (getNamesOrPattern (pause_context ''10s'' ''1s'' [''re2:redis'']) world0) = ([], ''dis'') \<and>
   TrimPrefix ''re2:redis'' Re2Prefix = ''redis''"
  by (simp add: getNamesOrPattern_def pause_context_def HasPrefix_def Re2Prefix_def Trim_def
        TrimLeft_def TrimRight_def TrimPrefix_def Let_def)

text \<open>
  Claim C6. With one argument that does not start with \<open>re2:\<close> the names should
  be the list of that one argument. For the argument \<open>foo\<close> the names computed are
  empty and so is the pattern, which is the result for no argument at all and
  selects every container.
\<close>

theorem getNamesOrPattern_drops_single_name:
  "fst (getNamesOrPattern (pause_context ''10s'' ''1s'' [''foo'']) world0) = ([], '''') \<and>
   fst (getNamesOrPattern (pause_context ''10s'' ''1s'' []) world0) = ([], '''')"
  by (simp add: getNamesOrPattern_def pause_context_def HasPrefix_def Re2Prefix_def Let_def)

section \<open>Validation\<close>

lemma parse_seconds_examples:
  "parse_seconds ''1s'' = Inr 1000000000"
  "parse_seconds ''3s'' = Inr 3000000000"
  "parse_seconds ''5s'' = Inr 5000000000"
  by (simp_all add: parse_seconds_def Second_def)

text \<open>
  What the validation of a pause decides, for every command line: the interval
  must be present and parse, the duration must be present and parse, and nothing
  else is looked at. The two values are never compared.
\<close>

lemma run_pause_decides:
  "fst (run_pause ParseDuration c w) =
     (if GlobalString c ''interval'' = '''' then Rejected ''Undefined interval value.''
      else case ParseDuration (GlobalString c ''interval'') of
             Inl err \<Rightarrow> Rejected err
           | Inr interval \<Rightarrow>
               if String_flag c ''duration'' = '''' then Rejected ''Undefined duration interval''
               else case ParseDuration (String_flag c ''duration'') of
                      Inl err \<Rightarrow> Rejected err
                    | Inr duration \<Rightarrow>
                        RunChaosCommand (CommandPause duration)
                          (fst (fst (getNamesOrPattern c w))) (snd (fst (getNamesOrPattern c w)))
                          interval)"
  by (simp add: run_pause_def beforeCommand_def pause_def Let_def split: prod.splits sum.splits)

text \<open>
  Claim C7. A pause or a netem delay whose duration is greater than or equal to the
  interval should be rejected by the validation, before the scheduler starts; the
  usage text of both duration flags says that the duration should be smaller than
  the recurrent interval. Under an interval of three seconds, a pause of five
  seconds and a netem delay of five seconds both pass the validation and reach the
  scheduler, with the interval of three seconds and the duration of five.
\<close>

theorem duration_longer_than_interval_is_scheduled:
  "run_pause parse_seconds (pause_context ''3s'' ''5s'' []) world0 =
     (RunChaosCommand (CommandPause 5000000000) [] '''' 3000000000, world0) \<and>
   run_netemDelay parse_seconds no_ip (netem_context ''3s'' ''5s'' ''eth0'' []) world0 =
     (RunChaosCommand
        (CommandNetem \<lparr>NetInterface = ''eth0'', NetemIP = None, Duration = 5000000000,
                       Amount = 100, Variation = 10, Correlation = 20\<rparr>)
        [] '''' 3000000000,
      world0)"
  by (simp add: run_pause_def run_netemDelay_def beforeCommand_def pause_def netemDelay_def
        pause_context_def netem_context_def getNamesOrPattern_def parse_seconds_examples Let_def
        reInterface_FindString_def is_letter_def is_digit_def lower_letters_def upper_letters_def
        digits_def no_ip_def)

text \<open>
  The check of the interface name, \<open>netInterface != validInterface\<close>, passes
  exactly the names that match the expression as a whole, and the empty name. Every
  other name is rejected before anything is scheduled, with no call to the runtime.
\<close>

lemma reInterface_FindString_length:
  "length (reInterface_FindString s) \<le>
     length (dropWhile (\<lambda>c. \<not> is_letter c) s)"
proof -
  let ?fl = "dropWhile (\<lambda>c. \<not> is_letter c) s"
  have "length (takeWhile is_digit (take 2 (dropWhile is_letter ?fl))) \<le> length (dropWhile is_letter ?fl)"
  proof -
    have "length (takeWhile is_digit (take 2 (dropWhile is_letter ?fl))) \<le>
            length (take 2 (dropWhile is_letter ?fl))"
      by (rule length_takeWhile_le)
    also have "\<dots> \<le> length (dropWhile is_letter ?fl)"
      by simp
    finally show ?thesis .
  qed
  moreover have "length (takeWhile is_letter ?fl) + length (dropWhile is_letter ?fl) = length ?fl"
    by (metis length_append takeWhile_dropWhile_id)
  ultimately show ?thesis
    by (simp add: reInterface_FindString_def Let_def)
qed

lemma reInterface_check_passes_iff:
  "reInterface_FindString s = s \<longleftrightarrow> s = [] \<or> matches_reInterface s"
proof
  assume fixed: "reInterface_FindString s = s"
  show "s = [] \<or> matches_reInterface s"
  proof (cases "s = []")
    case True
    then show ?thesis by simp
  next
    case False
    let ?fl = "dropWhile (\<lambda>c. \<not> is_letter c) s"
    from reInterface_FindString_length [of s] fixed have "length s \<le> length ?fl" by simp
    then have "takeWhile (\<lambda>c. \<not> is_letter c) s = []"
      by (metis (no_types, lifting) add_le_same_cancel2 le_zero_eq length_0_conv length_append takeWhile_dropWhile_id)
    with False have first: "is_letter (hd s)"
      by (cases s) (auto split: if_splits)
    then have fl: "?fl = s" using False by (cases s) auto
    let ?rest = "dropWhile is_letter s"
    from fixed fl have "takeWhile is_letter s @ takeWhile is_digit (take 2 ?rest) = s"
      by (simp add: reInterface_FindString_def Let_def)
    then have "takeWhile is_letter s @ takeWhile is_digit (take 2 ?rest) = takeWhile is_letter s @ ?rest"
      by (simp only: takeWhile_dropWhile_id)
    then have rest: "takeWhile is_digit (take 2 ?rest) = ?rest"
      by (simp only: same_append_eq)
    have "length (takeWhile is_digit (take 2 ?rest)) \<le> length (take 2 ?rest)"
      by (rule length_takeWhile_le)
    then have "length (takeWhile is_digit (take 2 ?rest)) \<le> 2"
      by simp
    with rest have "length ?rest \<le> 2" by simp
    moreover have "list_all is_digit ?rest"
      by (metis rest list_all_iff set_takeWhileD)
    moreover have "takeWhile is_letter s \<noteq> []"
      using first False by (cases s) auto
    ultimately show ?thesis by (simp add: matches_reInterface_def Let_def)
  qed
next
  assume "s = [] \<or> matches_reInterface s"
  then show "reInterface_FindString s = s"
  proof
    assume "s = []"
    then show ?thesis by (simp add: reInterface_FindString_def)
  next
    assume m: "matches_reInterface s"
    let ?rest = "dropWhile is_letter s"
    from m have word: "takeWhile is_letter s \<noteq> []" and len: "length ?rest \<le> 2"
      and dig: "list_all is_digit ?rest"
      by (simp_all add: matches_reInterface_def Let_def)
    from word have "s \<noteq> []" and "is_letter (hd s)" by (cases s; auto split: if_splits)+
    then have fl: "dropWhile (\<lambda>c. \<not> is_letter c) s = s" by (cases s) auto
    from len have "take 2 ?rest = ?rest" by simp
    moreover from dig have "takeWhile is_digit ?rest = ?rest"
      by (simp add: list_all_iff)
    ultimately have "takeWhile is_digit (take 2 ?rest) = ?rest"
      by (simp only:)
    moreover have "reInterface_FindString s =
                     takeWhile is_letter s @ takeWhile is_digit (take 2 ?rest)"
      by (simp add: reInterface_FindString_def Let_def fl)
    ultimately have "reInterface_FindString s = takeWhile is_letter s @ ?rest"
      by (simp only:)
    then show ?thesis
      by (simp only: takeWhile_dropWhile_id)
  qed
qed

lemma netemDelay_rejects_mismatch_unless_empty:
  assumes "Parent c = Some p"
    and "String_flag p ''interface'' \<noteq> []"
    and "\<not> matches_reInterface (String_flag p ''interface'')"
  shows "\<exists>err. fst (run_netemDelay ParseDuration ParseIP c w) = Rejected err"
    and "calls (since w (snd (run_netemDelay ParseDuration ParseIP c w))) = []"
proof -
  from assms(2,3) have bad: "String_flag p ''interface'' \<noteq> reInterface_FindString (String_flag p ''interface'')"
    using reInterface_check_passes_iff [of "String_flag p ''interface''"] by auto
  have names: "\<exists>evs. trace (snd (getNamesOrPattern c w)) = trace w @ evs \<and> calls evs = []"
    by (simp add: getNamesOrPattern_def Let_def Debugf_def emit_def)
  then obtain evs where evs: "trace (snd (getNamesOrPattern c w)) = trace w @ evs" "calls evs = []"
    by blast
  show "\<exists>err. fst (run_netemDelay ParseDuration ParseIP c w) = Rejected err"
    using assms(1) bad
    by (auto simp: run_netemDelay_def netemDelay_def Let_def split: sum.splits prod.splits)
  show "calls (since w (snd (run_netemDelay ParseDuration ParseIP c w))) = []"
    using assms(1) bad evs
    by (auto simp: run_netemDelay_def netemDelay_def Let_def LogError_def emit_def since_def
             split: sum.splits prod.splits)
qed

text \<open>
  Claim C9. An interface name that does not match \<open>[a-zA-Z]+[0-9]{0,2}\<close> as a
  whole should be rejected before anything is scheduled. The empty name does not
  match, yet it passes the check, because the search for a match then returns the
  empty string as well: the command is scheduled with an empty interface name.
\<close>

theorem netemDelay_accepts_empty_interface:
  "run_netemDelay parse_seconds no_ip (netem_context ''3s'' ''1s'' '''' []) world0 =
     (RunChaosCommand
        (CommandNetem \<lparr>NetInterface = '''', NetemIP = None, Duration = 1000000000,
                       Amount = 100, Variation = 10, Correlation = 20\<rparr>)
        [] '''' 3000000000,
      world0) \<and>
   \<not> matches_reInterface ''''"
  by (simp add: run_netemDelay_def beforeCommand_def netemDelay_def netem_context_def
        getNamesOrPattern_def parse_seconds_examples Let_def reInterface_FindString_def
        matches_reInterface_def no_ip_def)

end
